theory Spec2Isabelle
  imports Complex_Main "HOL-Library.Sublist"
begin

section \<open>The Python built-ins the scripts rely on\<close>

text \<open>
  Both scripts (\<^verbatim>\<open>apply-20260205-patch.py\<close> and \<^verbatim>\<open>apply-20260205-patch-pvp.py\<close>)
  use three built-ins on strings: \<^verbatim>\<open>str(skill_id)\<close>, \<^verbatim>\<open>old_text in s\<close> and
  \<^verbatim>\<open>s.replace(old_text, new_text, 1)\<close>. A string is a list of characters; the two
  search functions are written for lists over any element type, so nothing below depends
  on how large a character is.
\<close>

function str_nat :: "nat \<Rightarrow> string" where
  "str_nat n =
     (if n < 10 then [''0123456789'' ! n]
      else str_nat (n div 10) @ [''0123456789'' ! (n mod 10)])"
  by pat_completeness auto
termination
  by (relation "measure id") auto

declare str_nat.simps [simp del]

definition str :: "int \<Rightarrow> string" where
  \<comment> \<open>\<^verbatim>\<open>str(i)\<close> for a Python int: decimal digits, a minus sign for negatives.\<close>
  "str i = (if i < 0 then CHR ''-'' # str_nat (nat (- i)) else str_nat (nat i))"

fun str_find :: "'a list \<Rightarrow> 'a list \<Rightarrow> nat option" where
  \<comment> \<open>\<^verbatim>\<open>s.find(sub)\<close>: the lowest index at which \<open>sub\<close> starts in \<open>s\<close>, if any.\<close>
  "str_find sub [] = (if sub = [] then Some 0 else None)"
| "str_find sub (c # cs) =
     (if prefix sub (c # cs) then Some 0 else map_option Suc (str_find sub cs))"

definition str_contains :: "'a list \<Rightarrow> 'a list \<Rightarrow> bool" where
  \<comment> \<open>\<^verbatim>\<open>sub in s\<close> for two strings.\<close>
  "str_contains sub s = (str_find sub s \<noteq> None)"

fun replace1 :: "'a list \<Rightarrow> 'a list \<Rightarrow> 'a list \<Rightarrow> 'a list" where
  \<comment> \<open>\<^verbatim>\<open>s.replace(old, new, 1)\<close>: a single left-to-right scan that rewrites the first
      match and copies everything else.\<close>
  "replace1 old new [] = (if old = [] then new else [])"
| "replace1 old new (c # cs) =
     (if prefix old (c # cs) then new @ drop (length old) (c # cs)
      else c # replace1 old new cs)"

section \<open>Data model\<close>

text \<open>
  A JSON object is a Python dict, modelled as a map from field names to values. A store
  is the collection found under \<^verbatim>\<open>'skilldata'\<close> respectively \<^verbatim>\<open>'skilldesc'\<close> in a loaded file:
  it maps the decimal string of a skill identifier to that skill's object. Since
  \<^verbatim>\<open>json.load\<close> builds a fresh dict for every object, no two keys share an object, and
  the in-place mutation of an entry is an update of the store at that one key.
\<close>

type_synonym 'a entry = "string \<rightharpoonup> 'a"
type_synonym 'a store = "string \<rightharpoonup> 'a entry"
type_synonym 'a document = "string \<rightharpoonup> 'a store"

text \<open>The numbers of \<^verbatim>\<open>skilldata.json\<close> and of the mechanical change tables.\<close>

datatype number = PyInt int | PyFloat rat

text \<open>The only exception the edit loops can raise: a subscript with a missing key.\<close>

datatype error = KeyError string

text \<open>
  Standard output is modelled as the sequence of \<^verbatim>\<open>print\<close> calls that interpolate data,
  each with the values interpolated into it; the fixed wording of a line (which differs
  slightly between the two scripts) and the banner lines without data are left out.
\<close>

datatype 'v line =
    MissingId int
      \<comment> \<open>\<^verbatim>\<open>WARNING: Skill ID {skill_id} not found in skilldata.json!\<close>\<close>
  | MechChange int string 'v 'v
      \<comment> \<open>\<^verbatim>\<open>[{skill_id}] {field}: {old_val} -> {new_val}\<close>\<close>
  | MissingDescId int
      \<comment> \<open>\<^verbatim>\<open>WARNING: Skill ID {skill_id} not found in skilldesc-en.json!\<close>\<close>
  | TextNotFound int string string string
      \<comment> \<open>\<^verbatim>\<open>WARNING: [{skill_id} {entry['name']}] '{old_text}' not found in {field}\<close>\<close>
  | Current string string
      \<comment> \<open>\<^verbatim>\<open>Current {field}: {entry[field]}\<close>\<close>
  | DescChange int string string string string
      \<comment> \<open>\<^verbatim>\<open>[{skill_id} {entry['name']}] {field}: '{old_text}' -> '{new_text}'\<close>\<close>
  | AppliedMechanical nat
      \<comment> \<open>\<^verbatim>\<open>Applied {mech_count} mechanical changes.\<close>\<close>
  | AppliedDescription nat nat
      \<comment> \<open>\<^verbatim>\<open>Applied {desc_applied} description changes, {desc_failed} failures.\<close>\<close>
  | AppliedBoth nat nat nat
      \<comment> \<open>\<^verbatim>\<open>Applied {mech_applied} mechanical + {desc_applied} description changes, {failed} failures.\<close>\<close>
  | ChangesFailed nat
      \<comment> \<open>\<^verbatim>\<open>*** {failed} CHANGES FAILED ***\<close>\<close>

text \<open>
  The variables an edit loop works on: the store it mutates, its counters and what it
  has printed so far.
\<close>

record ('a, 'v) run =
  store :: "'a store"
  applied :: nat
  failed :: nat
  out :: "'v line list"

section \<open>The mechanical editor\<close>

text \<open>
  The inner loop \<^verbatim>\<open>for field, new_val in updates.items()\<close>. The subscript
  \<^verbatim>\<open>sd[key][field]\<close> is evaluated for \<open>old_val\<close> before the assignment, so a missing
  field raises before anything is stored.
\<close>

fun apply_updates :: "int \<Rightarrow> string \<Rightarrow> (string \<times> 'v) list \<Rightarrow> ('v, 'v) run \<Rightarrow> error + ('v, 'v) run" where
  "apply_updates skill_id key [] s = Inr s"
| "apply_updates skill_id key ((field, new_val) # updates) s =
     (case store s key of
        None \<Rightarrow> Inl (KeyError key)
      | Some entry \<Rightarrow>
          (case entry field of
             None \<Rightarrow> Inl (KeyError field)
           | Some old_val \<Rightarrow>
               apply_updates skill_id key updates
                 (s\<lparr>store := (store s)(key \<mapsto> entry(field \<mapsto> new_val)),
                    out := out s @ [MechChange skill_id field old_val new_val],
                    applied := applied s + 1\<rparr>)))"

text \<open>
  The loop of \<^verbatim>\<open>apply_mechanical_changes\<close> in \<^verbatim>\<open>apply-20260205-patch.py\<close>: a missing
  identifier prints a warning and goes on to the next entry; no counter is touched.
\<close>

fun mechanical_loop :: "(int \<times> (string \<times> 'v) list) list \<Rightarrow> ('v, 'v) run \<Rightarrow> error + ('v, 'v) run" where
  "mechanical_loop [] s = Inr s"
| "mechanical_loop ((skill_id, updates) # changes) s =
     (let key = str skill_id in
      if store s key = None then
        mechanical_loop changes (s\<lparr>out := out s @ [MissingId skill_id]\<rparr>)
      else
        (case apply_updates skill_id key updates s of
           Inl e \<Rightarrow> Inl e
         | Inr s' \<Rightarrow> mechanical_loop changes s'))"

text \<open>
  The mechanical loop of \<^verbatim>\<open>main\<close> in \<^verbatim>\<open>apply-20260205-patch-pvp.py\<close>: the same, except
  that a missing identifier also does \<^verbatim>\<open>failed += 1\<close>.
\<close>

fun pvp_mechanical_loop :: "(int \<times> (string \<times> 'v) list) list \<Rightarrow> ('v, 'v) run \<Rightarrow> error + ('v, 'v) run" where
  "pvp_mechanical_loop [] s = Inr s"
| "pvp_mechanical_loop ((skill_id, updates) # changes) s =
     (let key = str skill_id in
      if store s key = None then
        pvp_mechanical_loop changes
          (s\<lparr>out := out s @ [MissingId skill_id], failed := failed s + 1\<rparr>)
      else
        (case apply_updates skill_id key updates s of
           Inl e \<Rightarrow> Inl e
         | Inr s' \<Rightarrow> pvp_mechanical_loop changes s'))"

section \<open>The description editor\<close>

text \<open>
  One iteration of \<^verbatim>\<open>for skill_id, field, old_text, new_text in changes\<close>, the same in
  both scripts. The subscripts raise in the order the source evaluates them:
  \<^verbatim>\<open>entry[field]\<close> in the test, then \<^verbatim>\<open>entry['name']\<close> in the \<^verbatim>\<open>print\<close> of either branch;
  on the success branch the assignment comes before the \<^verbatim>\<open>print\<close>, so the name is
  read from the updated entry.
\<close>

definition description_edit :: "int \<times> string \<times> string \<times> string \<Rightarrow> (string, 'v) run \<Rightarrow> error + (string, 'v) run" where
  "description_edit change s =
     (case change of (skill_id, field, old_text, new_text) \<Rightarrow>
        let key = str skill_id in
        (case store s key of
           None \<Rightarrow> Inr (s\<lparr>out := out s @ [MissingDescId skill_id], failed := failed s + 1\<rparr>)
         | Some entry \<Rightarrow>
             (case entry field of
                None \<Rightarrow> Inl (KeyError field)
              | Some cur \<Rightarrow>
                  if \<not> str_contains old_text cur then
                    (case entry ''name'' of
                       None \<Rightarrow> Inl (KeyError ''name'')
                     | Some name \<Rightarrow>
                         Inr (s\<lparr>out := out s @ [TextNotFound skill_id name old_text field,
                                                 Current field cur],
                                failed := failed s + 1\<rparr>))
                  else
                    (let entry' = entry(field \<mapsto> replace1 old_text new_text cur) in
                     case entry' ''name'' of
                       None \<Rightarrow> Inl (KeyError ''name'')
                     | Some name \<Rightarrow>
                         Inr (s\<lparr>store := (store s)(key \<mapsto> entry'),
                                out := out s @ [DescChange skill_id name field old_text new_text],
                                applied := applied s + 1\<rparr>)))))"

fun description_loop :: "(int \<times> string \<times> string \<times> string) list \<Rightarrow> (string, 'v) run \<Rightarrow> error + (string, 'v) run" where
  "description_loop [] s = Inr s"
| "description_loop (change # changes) s =
     (case description_edit change s of
        Inl e \<Rightarrow> Inl e
      | Inr s' \<Rightarrow> description_loop changes s')"

section \<open>The script \<^verbatim>\<open>apply-20260205-patch.py\<close>\<close>

text \<open>The literal table \<^verbatim>\<open>changes\<close> of \<^verbatim>\<open>apply_mechanical_changes\<close>, in insertion order.\<close>

definition mechanical_changes :: "(int \<times> (string \<times> number) list) list" where
  "mechanical_changes =
    [(1406, [(''recharge'', PyInt 15)]),
     (1467, [(''recharge'', PyInt 3)]),
     (908, [(''energy'', PyInt 5)]),
     (430, [(''activation'', PyInt 1)]),
     (947, [(''activation'', PyInt 3)]),
     (466, [(''activation'', PyInt 3)]),
     (464, [(''activation'', PyInt 3)]),
     (467, [(''activation'', PyInt 3)]),
     (471, [(''activation'', PyInt 3)]),
     (477, [(''activation'', PyInt 3)]),
     (870, [(''activation'', PyInt 3)]),
     (470, [(''activation'', PyInt 3)]),
     (1473, [(''activation'', PyInt 3)]),
     (1725, [(''activation'', PyInt 3)]),
     (468, [(''activation'', PyInt 3)]),
     (1472, [(''activation'', PyInt 3)]),
     (1213, [(''activation'', PyInt 3)]),
     (265, [(''recharge'', PyInt 20)]),
     (847, [(''recharge'', PyInt 6)]),
     (1692, [(''energy'', PyInt 5)]),
     (269, [(''activation'', PyFloat (1 / 4)), (''recharge'', PyInt 15)]),
     (264, [(''recharge'', PyInt 15)]),
     (253, [(''energy'', PyInt 5)]),
     (2137, [(''activation'', PyInt 1)]),
     (1061, [(''activation'', PyInt 1)]),
     (55, [(''energy'', PyInt 5), (''activation'', PyInt 1)]),
     (1348, [(''energy'', PyInt 5), (''activation'', PyFloat (1 / 4))]),
     (1334, [(''activation'', PyFloat (1 / 4))]),
     (35, [(''energy'', PyInt 10)]),
     (1338, [(''energy'', PyInt 5)]),
     (1355, [(''recharge'', PyInt 10)]),
     (763, [(''energy'', PyInt 5)]),
     (1358, [(''energy'', PyInt 10), (''activation'', PyInt 1)]),
     (2193, [(''energy'', PyInt 5)]),
     (175, [(''energy'', PyInt 10)]),
     (2001, [(''energy'', PyInt 5)]),
     (802, [(''energy'', PyInt 5)]),
     (1654, [(''energy'', PyInt 5)]),
     (876, [(''recharge'', PyInt 15)]),
     (1648, [(''activation'', PyInt 1)]),
     (914, [(''activation'', PyFloat (1 / 4))]),
     (980, [(''energy'', PyInt 5)]),
     (2072, [(''energy'', PyInt 5)]),
     (794, [(''recharge'', PyInt 15)]),
     (1268, [(''activation'', PyInt 1)]),
     (1737, [(''energy'', PyInt 5)]),
     (1755, [(''energy'', PyInt 5)]),
     (1525, [(''activation'', PyInt 1)]),
     (2014, [(''recharge'', PyInt 10)]),
     (1545, [(''adrenaline'', PyInt 5)]),
     (1533, [(''energy'', PyInt 5)]),
     (1779, [(''recharge'', PyInt 10)]),
     (1568, [(''adrenaline'', PyInt 2)]),
     (1569, [(''adrenaline'', PyInt 3)]),
     (1579, [(''activation'', PyFloat (1 / 4)), (''recharge'', PyInt 5)]),
     (1560, [(''energy'', PyInt 15)]),
     (1570, [(''adrenaline'', PyInt 3)])]"

text \<open>
  The list \<^verbatim>\<open>changes\<close> that \<^verbatim>\<open>apply_description_changes\<close> builds with
  \<^verbatim>\<open>changes.append\<close>, in the order of the calls.
\<close>

definition description_changes :: "(int \<times> string \<times> string \<times> string) list" where
  \<open>description_changes =
    [(2067, ''description'',
        ''gain 1...5 strikes'',
        ''gain 1...6 strikes''),
     (2067, ''concise'',
        ''gain 1...5 strikes'',
        ''gain 1...6 strikes''),
     (1141, ''description'',
        ''below 50% Health'',
        ''below 90% Health''),
     (1141, ''concise'',
        ''under 50% Health'',
        ''under 90% Health''),
     (1405, ''description'',
        ''+10...40 damage'',
        ''+10...90 damage''),
     (1405, ''concise'',
        ''+10...40 damage'',
        ''+10...90 damage''),
     (1406, ''description'',
        ''Dazed for 5...20 seconds'',
        ''Dazed for 5 seconds''),
     (1406, ''concise'',
        ''Dazed (5...20 seconds)'',
        ''Dazed (5 seconds)''),
     (1408, ''description'',
        ''For 10 seconds, whenever you use an adrenal skill, that skill recharges for 5 seconds'',
        ''For 8 seconds, whenever you use an adrenal skill, that skill recharges for 3 seconds''),
     (1408, ''concise'',
        ''For 10 seconds, adrenal skills have a 5 second recharge'',
        ''For 8 seconds, adrenal skills have a 3 second recharge''),
     (1467, ''description'',
        ''+10...25 damage'',
        ''+10...35 damage''),
     (1467, ''concise'',
        ''+10...25 damage'',
        ''+10...35 damage''),
     (908, ''description'',
        ''+10...35 damage and all your non-attack skills are disabled for 10 seconds'',
        ''+25...55 damage and all your non-attack skills are disabled for 5 seconds''),
     (908, ''concise'',
        ''Deals +10...35 damage.'',
        ''Deals +25...55 damage.''),
     (908, ''concise'',
        ''disabled (10 seconds)'',
        ''disabled (5 seconds)''),
     (449, ''description'',
        ''last 30...150% longer'',
        ''last 30...300% longer''),
     (449, ''concise'',
        ''last 30...150% longer'',
        ''last 30...300% longer''),
     (852, ''description'',
        ''foes adjacent to your target'',
        ''foes in the area of your target''),
     (852, ''concise'',
        ''to adjacent foes'',
        ''to foes in the area''),
     (947, ''description'',
        ''dies after 30...150 seconds'',
        ''dies after 30...240 seconds''),
     (947, ''concise'',
        ''30...150 second lifespan'',
        ''30...240 second lifespan''),
     (466, ''description'',
        ''dies after 30...150 seconds'',
        ''dies after 30...240 seconds''),
     (466, ''concise'',
        ''30...150 second lifespan'',
        ''30...240 second lifespan''),
     (464, ''description'',
        ''dies after 30...150 seconds'',
        ''dies after 30...240 seconds''),
     (464, ''concise'',
        ''30...150 second lifespan'',
        ''30...240 second lifespan''),
     (1212, ''description'',
        ''dies after 30...150 seconds'',
        ''dies after 30...240 seconds''),
     (1212, ''concise'',
        ''30...150 second lifespan'',
        ''30...240 second lifespan''),
     (997, ''description'',
        ''takes 10...35 damage'',
        ''takes 20...70 damage''),
     (997, ''description'',
        ''dies after 30...90 seconds'',
        ''dies after 30...180 seconds''),
     (997, ''concise'',
        ''Deals 10...35 damage'',
        ''Deals 20...70 damage''),
     (997, ''concise'',
        ''30...90 lifespan'',
        ''30...180 lifespan''),
     (467, ''description'',
        ''dies after 15...45 seconds'',
        ''dies after 15...90 seconds''),
     (467, ''concise'',
        ''15...45 second lifespan'',
        ''15...90 second lifespan''),
     (471, ''description'',
        ''dies after 30...90 seconds'',
        ''dies after 30...180 seconds''),
     (471, ''concise'',
        ''30...90 second lifespan'',
        ''30...180 second lifespan''),
     (465, ''description'',
        ''dies after 30...150 seconds'',
        ''dies after 30...240 seconds''),
     (465, ''concise'',
        ''30...150 second lifespan'',
        ''30...240 second lifespan''),
     (1730, ''description'',
        ''dies after 30...60 seconds'',
        ''dies after 30...120 seconds''),
     (1730, ''concise'',
        ''30...60 second lifespan'',
        ''30...120 second lifespan''),
     (961, ''description'',
        ''dies after 30...150 seconds'',
        ''dies after 30...240 seconds''),
     (961, ''concise'',
        ''30...150 second lifespan'',
        ''30...240 second lifespan''),
     (477, ''description'',
        ''dies after 30...90 seconds'',
        ''dies after 30...180 seconds''),
     (477, ''concise'',
        ''30...90 second lifespan'',
        ''30...180 second lifespan''),
     (870, ''description'',
        ''dies after 30...90 seconds'',
        ''dies after 30...180 seconds''),
     (870, ''concise'',
        ''30...90 second lifespan'',
        ''30...180 second lifespan''),
     (470, ''description'',
        ''dies after 30...150 seconds'',
        ''dies after 30...240 seconds''),
     (470, ''concise'',
        ''30...150 second lifespan'',
        ''30...240 second lifespan''),
     (1473, ''description'',
        ''dies after 30...90 seconds'',
        ''dies after 30...180 seconds''),
     (1473, ''concise'',
        ''30...90 second lifespan'',
        ''30...180 second lifespan''),
     (1725, ''description'',
        ''dies after 30...60 seconds'',
        ''dies after 30...180 seconds''),
     (1725, ''concise'',
        ''30...60 second lifespan'',
        ''30...180 second lifespan''),
     (468, ''description'',
        ''dies after 30...150 seconds'',
        ''dies after 30...240 seconds''),
     (468, ''concise'',
        ''30...150 second lifespan'',
        ''30...240 second lifespan''),
     (1472, ''description'',
        ''dies after 30...90 seconds'',
        ''dies after 30...180 seconds''),
     (1472, ''concise'',
        ''30...90 second lifespan'',
        ''30...180 second lifespan''),
     (1213, ''description'',
        ''dies after 15...60 seconds'',
        ''dies after 30...120 seconds''),
     (1213, ''concise'',
        ''15...60 second lifespan'',
        ''30...120 second lifespan''),
     (462, ''description'',
        ''dies after 30...150 seconds'',
        ''dies after 30...240 seconds''),
     (462, ''concise'',
        ''30...150 second lifespan'',
        ''30...240 second lifespan''),
     (265, ''description'',
        ''For 8...20 seconds'',
        ''For 4...12 seconds''),
     (265, ''concise'',
        ''(8...20 seconds.)'',
        ''(4...12 seconds.)''),
     (847, ''description'',
        ''20...80 Health. Your next Healing or Protection Prayer <sic/> spell that targets an ally heals for an additional 20...80 Health'',
        ''20...100 Health. Your next Healing or Protection Prayer <sic/> spell that targets an ally heals for an additional 20...100 Health''),
     (847, ''concise'',
        ''Heals for 20...80. Your next Healing or Protection Prayer <sic/> spell that targets an ally heals for +20...80 Health'',
        ''Heals for 20...100. Your next Healing or Protection Prayer <sic/> spell that targets an ally heals for +20...100 Health''),
     (264, ''description'',
        ''For 8...20 seconds'',
        ''For 4...8 seconds''),
     (264, ''concise'',
        ''(8...20 seconds.)'',
        ''(4...8 seconds.)''),
     (1129, ''description'',
        ''takes 15...75 holy damage. If your target was below 33% Health'',
        ''takes 30...130 holy damage. If your target was below 50% Health''),
     (1129, ''concise'',
        ''Deals 15...75 holy damage.'',
        ''Deals 30...130 holy damage.''),
     (1129, ''concise'',
        ''below 33% Health'',
        ''below 50% Health''),
     (1348, ''description'',
        ''foes near that ally'',
        ''foes in the area of that ally''),
     (1348, ''concise'',
        ''from foes near this ally'',
        ''from foes in the area of this ally''),
     (900, ''description'',
        ''all nearby foes attack'',
        ''all foes in the area attack''),
     (900, ''concise'',
        ''Also hexes foes near your target'',
        ''Also hexes foes in the area of your target''),
     (1355, ''description'',
        ''For 30 seconds'',
        ''For 60 seconds''),
     (1355, ''concise'',
        ''(30 seconds.)'',
        ''(60 seconds.)''),
     (763, ''description'',
        ''the next 1...15 seconds'',
        ''the next 1...20 seconds''),
     (763, ''concise'',
        ''(1...15 seconds)'',
        ''(1...20 seconds)''),
     (863, ''description'',
        ''lose 25...15% maximum Health'',
        ''lose 10...3% maximum Health''),
     (863, ''concise'',
        ''lose 25...15% maximum Health'',
        ''lose 10...3% maximum Health''),
     (124, ''description'',
        ''you lose 10...5 Energy'',
        ''you lose 8...3 Energy''),
     (124, ''concise'',
        ''lose 10...5 Energy'',
        ''lose 8...3 Energy''),
     (168, ''description'',
        ''For 1...5 seconds'',
        ''For 1...8 seconds''),
     (168, ''concise'',
        ''(1...5 seconds.)'',
        ''(1...8 seconds.)''),
     (233, ''description'',
        ''For 5 seconds'',
        ''For 3...7 seconds''),
     (233, ''concise'',
        ''(5 seconds.)'',
        ''(3...7 seconds.)''),
     (1097, ''description'',
        ''For 1...6 seconds'',
        ''For 1...8 seconds''),
     (1097, ''concise'',
        ''(1...6 seconds.)'',
        ''(1...8 seconds.)''),
     (1029, ''description'',
        ''lose 10...4 Energy'',
        ''lose 10...3 Energy''),
     (1029, ''concise'',
        ''lose 10...4 Energy'',
        ''lose 10...3 Energy''),
     (1642, ''description'',
        ''skills are disabled for 10 seconds'',
        ''skills are disabled for 3 seconds''),
     (1642, ''concise'',
        ''skills are disabled (10 seconds.)'',
        ''skills are disabled (3 seconds.)''),
     (785, ''description'',
        ''gains 33% less benefit from healing'',
        ''gains 50% less benefit from healing''),
     (785, ''concise'',
        ''receives 33% less from healing'',
        ''receives 50% less from healing''),
     (1991, ''description'',
        ''gain 10...40 Health'',
        ''gain 10...45 Health''),
     (1991, ''concise'',
        ''gain 10...40 Health'',
        ''gain 10...45 Health''),
     (801, ''description'',
        ''For 1...3 seconds'',
        ''For 1...6 seconds''),
     (801, ''concise'',
        ''(1...3 seconds.)'',
        ''(1...6 seconds.)''),
     (827, ''description'',
        ''additional 33% chance of being a critical hit'',
        ''additional 50% chance of being a critical hit''),
     (827, ''concise'',
        ''+33% chance to land a critical hit'',
        ''+50% chance to land a critical hit''),
     (914, ''description'',
        ''steal 5...60 Health'',
        ''steal 5...70 Health''),
     (914, ''description'',
        ''creatures in the area of that foe'',
        ''creatures in earshot of that foe''),
     (914, ''concise'',
        ''Steals 5...60 Health'',
        ''Steals 5...70 Health''),
     (914, ''concise'',
        ''creatures in the area of target foe'',
        ''creatures in earshot of target foe''),
     (1264, ''description'',
        ''10...40 lightning (maximum 135) damage'',
        ''10...60 lightning (maximum 135) damage''),
     (1264, ''concise'',
        ''10...40 lightning damage (maximum 135)'',
        ''10...60 lightning damage (maximum 135)''),
     (1235, ''description'',
        ''For 5...15 seconds'',
        ''For 5...20 seconds''),
     (1235, ''description'',
        ''deal 1...15 less damage'',
        ''deal 3...20 less damage''),
     (1235, ''concise'',
        ''(5...15 seconds)'',
        ''(5...20 seconds)''),
     (1235, ''concise'',
        ''Reduces damage by 1...15'',
        ''Reduces damage by 3...20''),
     (1244, ''description'',
        ''For 5...20 seconds'',
        ''For 5...30 seconds''),
     (1244, ''concise'',
        ''(5...20 seconds.)'',
        ''(5...30 seconds.)''),
     (794, ''description'',
        ''For 3...9 seconds'',
        ''For 3...14 seconds''),
     (794, ''concise'',
        ''(3...9 seconds.)'',
        ''(3...14 seconds.)''),
     (2149, ''description'',
        ''For 4...10 seconds'',
        ''For 5...20 seconds''),
     (2149, ''concise'',
        ''(4...10 seconds.)'',
        ''(5...20 seconds.)''),
     (1737, ''description'',
        ''For 10...30 seconds'',
        ''For 10...40 seconds''),
     (1737, ''concise'',
        ''(10...30 seconds.)'',
        ''(10...40 seconds.)''),
     (1502, ''description'',
        ''gain 1 Energy for each enchantment on you (maximum 1...7 Energy)'',
        ''gain 2 Energy for each enchantment on you (maximum 2...7 Energy)''),
     (1502, ''concise'',
        ''gain 1 Energy (maximum 1...7)'',
        ''gain 2 Energy (maximum 2...7)''),
     (1528, ''description'',
        ''healed for 15...60 Health for each Enchantment on you (maximum 150)'',
        ''healed for 60 Health for each Enchantment on you (maximum 60...240)''),
     (1528, ''concise'',
        ''Heals for 15...60 (maximum 150)'',
        ''Heals for 60 (maximum 60...240)''),
     (1760, ''description'',
        ''+3...15 earth damage'',
        ''+3...30 earth damage''),
     (1760, ''concise'',
        ''+3...15 earth damage'',
        ''+3...30 earth damage''),
     (1766, ''description'',
        ''conditions expire 25% faster'',
        ''conditions expire 50% faster''),
     (1766, ''concise'',
        ''conditions expire 25% faster'',
        ''conditions expire 50% faster''),
     (1756, ''description'',
        ''transfer 1 condition'',
        ''transfer 1...3 conditions''),
     (1756, ''concise'',
        ''transfer 1 condition'',
        ''transfer 1...3 conditions''),
     (1755, ''description'',
        ''Disease for 1...2 seconds'',
        ''Disease for 1...10 seconds''),
     (1755, ''concise'',
        ''Diseased (1...2 seconds.)'',
        ''Diseased (1...10 seconds.)''),
     (1529, ''description'',
        ''also lose 1...2 hexes'',
        ''also lose 1...3 hexes''),
     (1529, ''concise'',
        ''lose 1...2 hexes'',
        ''lose 1...3 hexes''),
     (2014, ''description'',
        ''foes nearby your target are also Crippled'',
        ''foes in the area of your target are also Crippled''),
     (2014, ''concise'',
        ''foes nearby your target'',
        ''foes in the area of your target''),
     (1545, ''description'',
        ''15...65 cold damage'',
        ''15...75 cold damage''),
     (1545, ''concise'',
        ''15...65 cold damage'',
        ''15...75 cold damage''),
     (1586, ''description'',
        ''more than 250...100 damage'',
        ''more than 250...80 damage''),
     (1586, ''concise'',
        ''damage over 250...100'',
        ''damage over 250...80''),
     (1775, ''description'',
        ''that ally gains 1 Energy'',
        ''that ally gains 1...2 Energy''),
     (1775, ''concise'',
        ''gains 1 Energy'',
        ''gains 1...2 Energy''),
     (2075, ''description'',
        ''For 3...11 seconds'',
        ''For 3...15 seconds''),
     (2075, ''concise'',
        ''(3...11 seconds.)'',
        ''(3...15 seconds.)''),
     (2207, ''description'',
        ''gains 1...4 strikes of adrenaline'',
        ''gains 1...8 strikes of adrenaline''),
     (2207, ''concise'',
        ''gains 1...4 strikes'',
        ''gains 1...8 strikes''),
     (1583, ''description'',
        ''gain 2 Energy (maximum 8...12 Energy)'',
        ''gain 2...4 Energy (maximum 8...12 Energy)''),
     (1583, ''concise'',
        ''gain 2 Energy (maximum 8...12 Energy)'',
        ''gain 2...4 Energy (maximum 8...12 Energy)''),
     (1570, ''description'',
        ''next 1...3 skills'',
        ''next 1...6 skills''),
     (1570, ''concise'',
        ''next 1...3 skills'',
        ''next 1...6 skills'')]\<close>

text \<open>
  Both functions take the loaded file, subscript it for the store and mutate the store
  in place; the model returns the file with the store replaced, the counters the source
  returns, and the lines printed.
\<close>

definition apply_mechanical_changes :: "number document \<Rightarrow> error + (number document \<times> nat \<times> number line list)" where
  "apply_mechanical_changes skilldata =
     (case skilldata ''skilldata'' of
        None \<Rightarrow> Inl (KeyError ''skilldata'')
      | Some sd \<Rightarrow>
          (case mechanical_loop mechanical_changes \<lparr>store = sd, applied = 0, failed = 0, out = []\<rparr> of
             Inl e \<Rightarrow> Inl e
           | Inr s \<Rightarrow> Inr (skilldata(''skilldata'' \<mapsto> store s), applied s, out s)))"

definition apply_description_changes :: "string document \<Rightarrow> error + (string document \<times> nat \<times> nat \<times> number line list)" where
  "apply_description_changes skilldesc =
     (case skilldesc ''skilldesc'' of
        None \<Rightarrow> Inl (KeyError ''skilldesc'')
      | Some sd \<Rightarrow>
          (case description_loop description_changes \<lparr>store = sd, applied = 0, failed = 0, out = []\<rparr> of
             Inl e \<Rightarrow> Inl e
           | Inr s \<Rightarrow> Inr (skilldesc(''skilldesc'' \<mapsto> store s), applied s, failed s, out s)))"

text \<open>
  What a run of a script amounts to: either an uncaught exception (a traceback, exit
  status 1, and nothing saved, since both \<^verbatim>\<open>save_json\<close> calls come last), or an exit
  status together with the \<^verbatim>\<open>save_json\<close> calls made, in order, and the lines printed.
\<close>

datatype saved = SaveSkilldata "number document" | SaveSkilldesc "string document"

datatype outcome = Uncaught error | Exit nat "saved list" "number line list"

fun status :: "outcome \<Rightarrow> nat" where
  "status (Uncaught e) = 1"
| "status (Exit code files printed) = code"

fun writes :: "outcome \<Rightarrow> saved list" where
  "writes (Uncaught e) = []"
| "writes (Exit code files printed) = files"

definition main :: "number document \<Rightarrow> string document \<Rightarrow> outcome" where
  "main skilldata skilldesc =
     (case apply_mechanical_changes skilldata of
        Inl e \<Rightarrow> Uncaught e
      | Inr (skilldata', mech_count, out1) \<Rightarrow>
          (case apply_description_changes skilldesc of
             Inl e \<Rightarrow> Uncaught e
           | Inr (skilldesc', desc_applied, desc_failed, out2) \<Rightarrow>
               (let printed = out1 @ [AppliedMechanical mech_count] @ out2
                              @ [AppliedDescription desc_applied desc_failed] in
                if desc_failed > 0 then Exit 1 [] (printed @ [ChangesFailed desc_failed])
                else Exit 0 [SaveSkilldata skilldata', SaveSkilldesc skilldesc'] printed)))"

section \<open>The script \<^verbatim>\<open>apply-20260205-patch-pvp.py\<close>\<close>

text \<open>The literal tables \<^verbatim>\<open>mech_changes\<close> and \<^verbatim>\<open>desc_changes\<close> of its \<^verbatim>\<open>main\<close>.\<close>

definition mech_changes :: "(int \<times> (string \<times> number) list) list" where
  "mech_changes =
    [(3289, [(''energy'', PyInt 5), (''activation'', PyInt 1)]),
     (3398, [(''recharge'', PyInt 15)]),
     (3018, [(''activation'', PyInt 3)]),
     (3273, [(''recharge'', PyInt 10)])]"

definition desc_changes :: "(int \<times> string \<times> string \<times> string) list" where
  \<open>desc_changes =
    [(2895, ''description'',
        ''For 5 seconds'',
        ''For 4 seconds''),
     (2895, ''concise'',
        ''(5 seconds.)'',
        ''(4 seconds.)''),
     (3179, ''description'',
        ''For 10...40 seconds, whenever you use a signet, you gain 5...60 Health.'',
        ''For 10...40 seconds, you have +3 armor for each signet you have equipped. Whenever you use a signet you gain 5...60 Health.''),
     (3179, ''concise'',
        ''(10...40 seconds.) You gain 5...60 Health each time you use a signet.'',
        ''(10...40 seconds.) You have +3 armor for each signet. You gain 5...60 Health each time you use a signet.''),
     (3186, ''description'',
        ''all nearby foes attack'',
        ''all foes in the area attack''),
     (3186, ''concise'',
        ''foes near your target'',
        ''foes in the area of your target''),
     (2860, ''description'',
        ''For 7 seconds'',
        ''For 10 seconds''),
     (2860, ''concise'',
        ''(7 seconds.)'',
        ''(10 seconds.)''),
     (2803, ''description'',
        ''additional 10...40 cold damage'',
        ''additional 10...60 cold damage''),
     (2803, ''concise'',
        ''+10...40 cold damage'',
        ''+10...60 cold damage'')]\<close>

text \<open>
  Its \<^verbatim>\<open>main\<close> runs both loops inline, on one shared counter \<^verbatim>\<open>failed\<close> and separate
  counters \<^verbatim>\<open>mech_applied\<close> and \<^verbatim>\<open>desc_applied\<close>.
\<close>

definition pvp_main :: "number document \<Rightarrow> string document \<Rightarrow> outcome" where
  "pvp_main skilldata skilldesc =
     (case skilldata ''skilldata'' of
        None \<Rightarrow> Uncaught (KeyError ''skilldata'')
      | Some sd \<Rightarrow>
          (case skilldesc ''skilldesc'' of
             None \<Rightarrow> Uncaught (KeyError ''skilldesc'')
           | Some dd \<Rightarrow>
               (case pvp_mechanical_loop mech_changes \<lparr>store = sd, applied = 0, failed = 0, out = []\<rparr> of
                  Inl e \<Rightarrow> Uncaught e
                | Inr m \<Rightarrow>
                    (case description_loop desc_changes \<lparr>store = dd, applied = 0, failed = failed m, out = out m\<rparr> of
                       Inl e \<Rightarrow> Uncaught e
                     | Inr d \<Rightarrow>
                         (let printed = out d @ [AppliedBoth (applied m) (applied d) (failed d)] in
                          if failed d > 0 then Exit 1 [] (printed @ [ChangesFailed (failed d)])
                          else Exit 0 [SaveSkilldata (skilldata(''skilldata'' \<mapsto> store m)),
                                       SaveSkilldesc (skilldesc(''skilldesc'' \<mapsto> store d))] printed)))))"

section \<open>Scenarios\<close>

text \<open>
  The two records of the specification's scenarios, as the variables of a loop about
  to start: a description record and a mechanical record.
\<close>

definition scenario_skilldesc :: "(string, number) run" where
  "scenario_skilldesc =
     \<lparr>store = [''200'' \<mapsto> [''name'' \<mapsto> ''X'', ''description'' \<mapsto> ''For 5 seconds, deal 10 damage.'']],
      applied = 0, failed = 0, out = []\<rparr>"

definition scenario_skilldata :: "(number, number) run" where
  "scenario_skilldata =
     \<lparr>store = [''100'' \<mapsto> [''energy'' \<mapsto> PyInt 10, ''recharge'' \<mapsto> PyInt 20]],
      applied = 0, failed = 0, out = []\<rparr>"

section \<open>Properties of the string built-ins\<close>

lemma str_find_bound: "str_find sub s = Some i \<Longrightarrow> i \<le> length s"
  by (induction s arbitrary: i) (auto split: if_splits)

lemma str_find_prefix: "str_find sub s = Some i \<Longrightarrow> prefix sub (drop i s)"
  by (induction s arbitrary: i) (auto split: if_splits)

lemma str_find_least: "str_find sub s = Some i \<Longrightarrow> j < i \<Longrightarrow> \<not> prefix sub (drop j s)"
proof (induction s arbitrary: i j)
  case Nil
  then show ?case by (simp split: if_splits)
next
  case (Cons c cs)
  show ?case
  proof (cases "prefix sub (c # cs)")
    case True
    with Cons.prems show ?thesis by simp
  next
    case False
    with Cons.prems obtain k where k: "str_find sub cs = Some k" "i = Suc k" by auto
    show ?thesis
    proof (cases j)
      case 0
      with False show ?thesis by simp
    next
      case (Suc j')
      with Cons.prems k have "j' < k" by simp
      from Cons.IH [OF k(1) this] Suc show ?thesis by simp
    qed
  qed
qed

lemma str_find_None: "str_find sub s = None \<Longrightarrow> \<not> prefix sub (drop j s)"
proof (induction s arbitrary: j)
  case Nil
  then show ?case by (simp split: if_splits)
next
  case (Cons c cs)
  then show ?case by (cases j) (auto split: if_splits)
qed

lemma str_contains_sublist: "str_contains sub s \<longleftrightarrow> sublist sub s"
proof
  assume "str_contains sub s"
  then obtain i where "str_find sub s = Some i" by (auto simp: str_contains_def)
  then have "prefix sub (drop i s)" by (rule str_find_prefix)
  then obtain post where "drop i s = sub @ post" by (auto simp: prefix_def)
  then have "s = take i s @ sub @ post" by (metis append_take_drop_id)
  then show "sublist sub s" unfolding sublist_def by blast
next
  assume "sublist sub s"
  then obtain pre post where s: "s = pre @ sub @ post" unfolding sublist_def by blast
  then have "prefix sub (drop (length pre) s)" by simp
  then have "str_find sub s \<noteq> None" using str_find_None by blast
  then show "str_contains sub s" by (simp add: str_contains_def)
qed

lemma replace1_found:
  "str_find old s = Some i \<Longrightarrow> replace1 old new s = take i s @ new @ drop (i + length old) s"
proof (induction s arbitrary: i)
  case Nil
  then show ?case by (simp split: if_splits)
next
  case (Cons c cs)
  then show ?case by (auto split: if_splits)
qed

lemma replace1_absent: "str_find old s = None \<Longrightarrow> replace1 old new s = s"
  by (induction s) (auto split: if_splits)

section \<open>Properties of one description edit\<close>

lemma description_edit_missing:
  "store s (str skill_id) = None \<Longrightarrow>
   description_edit (skill_id, field, old_text, new_text) s =
     Inr (s\<lparr>out := out s @ [MissingDescId skill_id], failed := failed s + 1\<rparr>)"
  by (simp add: description_edit_def)

lemma description_edit_no_field:
  "store s (str skill_id) = Some entry \<Longrightarrow> entry field = None \<Longrightarrow>
   description_edit (skill_id, field, old_text, new_text) s = Inl (KeyError field)"
  by (simp add: description_edit_def)

lemma description_edit_no_name:
  "store s (str skill_id) = Some entry \<Longrightarrow> entry field = Some cur \<Longrightarrow> entry ''name'' = None \<Longrightarrow>
   description_edit (skill_id, field, old_text, new_text) s = Inl (KeyError ''name'')"
  by (auto simp: description_edit_def Let_def)

lemma description_edit_absent:
  "store s (str skill_id) = Some entry \<Longrightarrow> entry field = Some cur \<Longrightarrow>
   entry ''name'' = Some name \<Longrightarrow> \<not> str_contains old_text cur \<Longrightarrow>
   description_edit (skill_id, field, old_text, new_text) s =
     Inr (s\<lparr>out := out s @ [TextNotFound skill_id name old_text field, Current field cur],
            failed := failed s + 1\<rparr>)"
  by (simp add: description_edit_def)

lemma description_edit_present:
  "store s (str skill_id) = Some entry \<Longrightarrow> entry field = Some cur \<Longrightarrow>
   entry ''name'' = Some name \<Longrightarrow> str_contains old_text cur \<Longrightarrow>
   description_edit (skill_id, field, old_text, new_text) s =
     Inr (s\<lparr>store := (store s)(str skill_id \<mapsto> entry(field \<mapsto> replace1 old_text new_text cur)),
            out := out s @ [DescChange skill_id
                     (if field = ''name'' then replace1 old_text new_text cur else name)
                     field old_text new_text],
            applied := applied s + 1\<rparr>)"
  by (simp add: description_edit_def Let_def)

lemma leftmost_split:
  assumes "str_contains old cur"
  obtains pre post where "cur = pre @ old @ post"
    and "\<forall>j<length pre. \<not> prefix old (drop j cur)"
    and "replace1 old new cur = pre @ new @ post"
proof -
  from assms obtain i where i: "str_find old cur = Some i" by (auto simp: str_contains_def)
  then have "prefix old (drop i cur)" by (rule str_find_prefix)
  then obtain post where post: "drop i cur = old @ post" by (auto simp: prefix_def)
  have le: "i \<le> length cur" using i by (rule str_find_bound)
  have cur: "cur = take i cur @ old @ post" using post by (metis append_take_drop_id)
  have len: "length (take i cur) = i" using le by simp
  have "drop (i + length old) cur = post"
    using post by (metis add.commute append_eq_conv_conj drop_drop)
  then have "replace1 old new cur = take i cur @ new @ post"
    using replace1_found [OF i] by simp
  moreover have "\<forall>j<length (take i cur). \<not> prefix old (drop j cur)"
    using str_find_least [OF i] len by simp
  ultimately show ?thesis using cur that by blast
qed

lemma str_200: "str 200 = ''200''"
  by (simp add: str_def str_nat.simps)


text \<open>
  Claim C3. A description edit whose record exists and whose current field value
  contains the old text rewrites exactly the leftmost occurrence: the value splits as
  \<open>pre @ old_text @ post\<close> with no occurrence of the old text starting inside
  \<open>pre\<close>, the new value is \<open>pre @ new_text @ post\<close> (so \<open>post\<close>, with any later
  occurrence, and the inserted text are left as they are), and the applied count goes
  up by one while the failure count stays. The record is assumed to have its
  \<^verbatim>\<open>name\<close>, which the log line reads.
\<close>

theorem description_edit_first_occurrence:
  assumes "store s (str skill_id) = Some entry"
    and "entry field = Some cur"
    and "entry ''name'' = Some name"
    and "\<exists>pre post. cur = pre @ old_text @ post"
  shows "\<exists>pre post.
           cur = pre @ old_text @ post \<and>
           (\<forall>j<length pre. \<not> prefix old_text (drop j cur)) \<and>
           description_edit (skill_id, field, old_text, new_text) s =
             Inr (s\<lparr>store := (store s)(str skill_id \<mapsto> entry(field \<mapsto> pre @ new_text @ post)),
                    out := out s @ [DescChange skill_id
                             (if field = ''name'' then pre @ new_text @ post else name)
                             field old_text new_text],
                    applied := applied s + 1\<rparr>)"
proof -
  from assms(4) have c: "str_contains old_text cur"
    by (simp add: str_contains_sublist sublist_def)
  then obtain pre post where p: "cur = pre @ old_text @ post"
      "\<forall>j<length pre. \<not> prefix old_text (drop j cur)"
      "replace1 old_text new_text cur = pre @ new_text @ post"
    by (rule leftmost_split)
  from description_edit_present [OF assms(1-3) c, of new_text] p(3)
  have "description_edit (skill_id, field, old_text, new_text) s =
             Inr (s\<lparr>store := (store s)(str skill_id \<mapsto> entry(field \<mapsto> pre @ new_text @ post)),
                    out := out s @ [DescChange skill_id
                             (if field = ''name'' then pre @ new_text @ post else name)
                             field old_text new_text],
                    applied := applied s + 1\<rparr>)" by simp
  with p(1,2) show ?thesis by blast
qed


theorem description_edit_first_occurrence_witness:
  "\<exists>pre post.
     ''For 5 seconds, deal 10 damage.'' = pre @ ''For 5 seconds'' @ post \<and>
     (\<forall>j<length pre. \<not> prefix ''For 5 seconds'' (drop j ''For 5 seconds, deal 10 damage.'')) \<and>
     description_edit (200, ''description'', ''For 5 seconds'', ''For 4 seconds'') scenario_skilldesc =
       Inr (scenario_skilldesc
              \<lparr>store := (store scenario_skilldesc)(str 200 \<mapsto>
                   [''name'' \<mapsto> ''X'', ''description'' \<mapsto> ''For 5 seconds, deal 10 damage.'']
                   (''description'' \<mapsto> pre @ ''For 4 seconds'' @ post)),
               out := out scenario_skilldesc @ [DescChange 200
                        (if ''description'' = ''name'' then pre @ ''For 4 seconds'' @ post else ''X'')
                        ''description'' ''For 5 seconds'' ''For 4 seconds''],
               applied := applied scenario_skilldesc + 1\<rparr>)"
proof (rule description_edit_first_occurrence)
  show "store scenario_skilldesc (str 200) =
          Some [''name'' \<mapsto> ''X'', ''description'' \<mapsto> ''For 5 seconds, deal 10 damage.'']"
    by (simp add: scenario_skilldesc_def str_200)
  show "[''name'' \<mapsto> ''X'', ''description'' \<mapsto> ''For 5 seconds, deal 10 damage.''] ''description'' =
          Some ''For 5 seconds, deal 10 damage.''"
    by simp
  show "[''name'' \<mapsto> ''X'', ''description'' \<mapsto> ''For 5 seconds, deal 10 damage.''] ''name'' = Some ''X''"
    by simp
  have "''For 5 seconds, deal 10 damage.'' = [] @ ''For 5 seconds'' @ '', deal 10 damage.''"
    by simp
  then show "\<exists>pre post. ''For 5 seconds, deal 10 damage.'' = pre @ ''For 5 seconds'' @ post"
    by blast
qed


text \<open>
  Claim C4. A description edit whose record exists but whose current field value does
  not contain the old text as a contiguous substring raises the failure count by one,
  prints the attempted old text and the full current value, and leaves the store as it
  is. The record is assumed to have its \<^verbatim>\<open>name\<close>, which the warning reads.
\<close>

theorem description_edit_mismatch:
  assumes "store s (str skill_id) = Some entry"
    and "entry field = Some cur"
    and "entry ''name'' = Some name"
    and "\<not> (\<exists>pre post. cur = pre @ old_text @ post)"
  shows "description_edit (skill_id, field, old_text, new_text) s =
           Inr (s\<lparr>out := out s @ [TextNotFound skill_id name old_text field, Current field cur],
                  failed := failed s + 1\<rparr>)"
proof -
  from assms(4) have "\<not> str_contains old_text cur"
    by (simp add: str_contains_sublist sublist_def)
  with assms(1-3) show ?thesis by (rule description_edit_absent)
qed


theorem description_edit_mismatch_witness:
  "description_edit (200, ''description'', ''For 9 seconds'', ''For 1 second'') scenario_skilldesc =
     Inr (scenario_skilldesc
            \<lparr>out := out scenario_skilldesc @
                      [TextNotFound 200 ''X'' ''For 9 seconds'' ''description'',
                       Current ''description'' ''For 5 seconds, deal 10 damage.''],
             failed := failed scenario_skilldesc + 1\<rparr>)"
proof (rule description_edit_mismatch)
  show "store scenario_skilldesc (str 200) =
          Some [''name'' \<mapsto> ''X'', ''description'' \<mapsto> ''For 5 seconds, deal 10 damage.'']"
    by (simp add: scenario_skilldesc_def str_200)
  show "[''name'' \<mapsto> ''X'', ''description'' \<mapsto> ''For 5 seconds, deal 10 damage.''] ''description'' =
          Some ''For 5 seconds, deal 10 damage.''"
    by simp
  show "[''name'' \<mapsto> ''X'', ''description'' \<mapsto> ''For 5 seconds, deal 10 damage.''] ''name'' = Some ''X''"
    by simp
  have "\<not> str_contains ''For 9 seconds'' ''For 5 seconds, deal 10 damage.''"
    by (simp add: str_contains_def)
  then show "\<not> (\<exists>pre post. ''For 5 seconds, deal 10 damage.'' = pre @ ''For 9 seconds'' @ post)"
    by (simp add: str_contains_sublist sublist_def)
qed

end
